theory Spec2Isabelle
  imports Complex_Main "HOL-Library.Word"
begin

section \<open>wifi\_capture: a shallow embedding of \<^verbatim>\<open>wifi_capture.cpp\<close>\<close>

text \<open>
  The program is one translation unit: the channel mapper \<^verbatim>\<open>wifi2g_ch_to_hz\<close>, the
  sidecar writer \<^verbatim>\<open>write_sidecar_json\<close> and \<^verbatim>\<open>main\<close>, which parses the command
  line, configures a SoapySDR device, streams samples into a file and tears the device
  down. Everything \<^verbatim>\<open>main\<close> asks of the outside (the number parsers, the SoapySDR
  library, the clock, the file system, the stop flag set by the signal handler) is a
  field of the record \<open>world\<close>; everything it does to the outside is an \<open>event\<close> of the
  run's trace, in program order.

  Conventions.
  \<^item> \<^verbatim>\<open>size_t\<close> is a 64-bit word; \<^verbatim>\<open>int\<close> values are only compared and cast, and are
    HOL integers; \<^verbatim>\<open>double\<close> values are reals (the channel frequencies are integers
    below \<open>2^53\<close>, exact in a double; NaN and the infinities are outside the model).
  \<^item> The constants of the SoapySDR headers (not part of the repository) are parameters,
    the record \<open>soapy\<close>.
  \<^item> A process ends by an exit code (\<^verbatim>\<open>return\<close> from \<^verbatim>\<open>main\<close>, \<^verbatim>\<open>std::exit\<close>), by
    \<^verbatim>\<open>std::terminate\<close> on an exception nobody catches, or in undefined behaviour.
\<close>

subsection \<open>Data\<close>

type_synonym byte = "8 word"
type_synonym size_t = "64 word"
type_synonym Kwargs = "(string \<times> string) list"

record soapy =
  SOAPY_SDR_CF32 :: string
  SOAPY_SDR_TIMEOUT :: int
  SOAPY_SDR_OVERFLOW :: int

text \<open>The local variables of \<^verbatim>\<open>main\<close> that the command line sets (lines 78--85).\<close>

record config =
  devArgs :: string
  wifiCh :: int
  sampRate :: real
  rfBw :: real
  gain :: real
  outDir :: string
  seconds :: real
  fmt :: string

definition defaults :: "soapy \<Rightarrow> config" where
  "defaults cs = \<lparr> devArgs = [], wifiCh = 6, sampRate = 20000000, rfBw = 25000000,
     gain = 40, outDir = ''./captures'', seconds = 10, fmt = SOAPY_SDR_CF32 cs \<rparr>"

datatype outcome = Exit int | Terminate string | Undefined

text \<open>What the program prints; numbers stay numbers instead of being rendered.\<close>

datatype msg =
    MissingValue string
  | Usage
  | NoDevices string
  | FoundDevices nat
  | MakeFailed
  | SetupStreamFailed
  | OpenFailed string
  | Capturing real real int real size_t string
  | WarnOverflow
  | ErrReadStream int
  | ErrShortWrite
  | Done size_t string
  | SidecarAt string

record sidecar =
  schema :: string
  radio :: string
  driver :: string
  center_hz :: real
  sample_rate :: real
  samples :: size_t
  format :: string
  timestamp_utc :: string

datatype event =
    Stderr msg
  | Stdout msg
  | Enumerate string
  | Make string
  | SetSampleRate real
  | SetBandwidth real
  | SetFrequency real
  | SetDCOffsetMode bool
  | SetIQBalance
  | SetGain real
  | GetStreamMTU
  | SetupStream string
  | ActivateStream
  | Fopen string
  | ReadStream size_t
  | Fwrite "byte list"
  | DeactivateStream
  | CloseStream
  | Unmake
  | DeleteDevice
  | Fclose
  | Ofstream string

subsection \<open>The channel mapper (lines 25--29)\<close>

definition wifi2g_ch_to_hz :: "int \<Rightarrow> string + real" where
  "wifi2g_ch_to_hz ch =
     (if 1 \<le> ch \<and> ch \<le> 13 then Inr ((2412 + 5 * real_of_int (ch - 1)) * 1000000)
      else if ch = 14 then Inr (2484 * 1000000)
      else Inl ''Unsupported 2.4 GHz channel'')"

subsection \<open>The command line (lines 88--109)\<close>

text \<open>
  \<^verbatim>\<open>std::stoi\<close> and \<^verbatim>\<open>std::stod\<close> are parameters; \<open>None\<close> is the exception they throw
  on a string that is not a number, which \<^verbatim>\<open>main\<close> does not catch. The lambda
  \<^verbatim>\<open>need\<close> takes the next argument whatever it looks like, and exits with 2 when there
  is none. An argument that is no known flag is skipped.
\<close>

datatype parsed = Parsed config | Stopped "event list" outcome

fun parse_cli :: "(string \<Rightarrow> int option) \<Rightarrow> (string \<Rightarrow> real option) \<Rightarrow> string list
    \<Rightarrow> config \<Rightarrow> parsed" where
  "parse_cli si sd [] c = Parsed c"
| "parse_cli si sd [a] c =
     (if a = ''--args'' \<or> a = ''--chan'' \<or> a = ''--rate'' \<or> a = ''--bw'' \<or> a = ''--gain''
         \<or> a = ''--out'' \<or> a = ''--secs'' \<or> a = ''--fmt''
      then Stopped [Stderr (MissingValue a)] (Exit 2)
      else if a = ''--help'' then Stopped [Stdout Usage] (Exit 0)
      else Parsed c)"
| "parse_cli si sd (a # v # rest) c =
     (if a = ''--args'' then parse_cli si sd rest (c\<lparr>devArgs := v\<rparr>)
      else if a = ''--chan'' then
        (case si v of None \<Rightarrow> Stopped [] (Terminate ''stoi'')
         | Some n \<Rightarrow> parse_cli si sd rest (c\<lparr>wifiCh := n\<rparr>))
      else if a = ''--rate'' then
        (case sd v of None \<Rightarrow> Stopped [] (Terminate ''stod'')
         | Some x \<Rightarrow> parse_cli si sd rest (c\<lparr>sampRate := x\<rparr>))
      else if a = ''--bw'' then
        (case sd v of None \<Rightarrow> Stopped [] (Terminate ''stod'')
         | Some x \<Rightarrow> parse_cli si sd rest (c\<lparr>rfBw := x\<rparr>))
      else if a = ''--gain'' then
        (case sd v of None \<Rightarrow> Stopped [] (Terminate ''stod'')
         | Some x \<Rightarrow> parse_cli si sd rest (c\<lparr>gain := x\<rparr>))
      else if a = ''--out'' then parse_cli si sd rest (c\<lparr>outDir := v\<rparr>)
      else if a = ''--secs'' then
        (case sd v of None \<Rightarrow> Stopped [] (Terminate ''stod'')
         | Some x \<Rightarrow> parse_cli si sd rest (c\<lparr>seconds := x\<rparr>))
      else if a = ''--fmt'' then parse_cli si sd rest (c\<lparr>fmt := v\<rparr>)
      else if a = ''--help'' then Stopped [Stdout Usage] (Exit 0)
      else parse_cli si sd (v # rest) c)"

subsection \<open>The outside world\<close>

datatype setter = SampleRate | Bandwidth | Frequency | DCOffsetMode | IQBalance | Gain

text \<open>
  One \<open>tick\<close> answers one iteration of the streaming loop: the value of \<^verbatim>\<open>g_stop\<close> at
  the loop head, the seconds on the steady clock since \<^verbatim>\<open>t0\<close>, what \<^verbatim>\<open>readStream\<close>
  returns and stores at the start of the buffer, and how many bytes the output stream
  takes from the \<^verbatim>\<open>fwrite\<close> of this iteration before it fails.
\<close>

record tick =
  g_stop :: bool
  elapsed :: real
  ret :: int
  delivered :: "byte list"
  accepted :: nat

text \<open>
  The device setters of lines 125--132 may throw (the source catches what the last three
  throw); \<^verbatim>\<open>Device::make\<close> and \<^verbatim>\<open>setupStream\<close> fail by returning null, as the source
  tests them; the other device calls return. Failure of \<^verbatim>\<open>buffer.resize\<close> is not
  modelled.

  The output goes through a buffered \<^verbatim>\<open>FILE*\<close>: what an \<^verbatim>\<open>fwrite\<close> accepts is in
  the stream, not yet in the file. \<open>fclose w d\<close> is what the file holds once
  \<^verbatim>\<open>std::fclose\<close> has returned, when the \<^verbatim>\<open>fwrite\<close> calls have accepted the bytes
  \<open>d\<close>: all of \<open>d\<close> when the last flush succeeds, less when it fails. The source
  drops the result of \<^verbatim>\<open>std::fclose\<close> (line 192), so the program does not see the
  difference.
\<close>

record world =
  stoi :: "string \<Rightarrow> int option"
  stod :: "string \<Rightarrow> real option"
  Device_enumerate :: "string \<Rightarrow> Kwargs list"
  Device_make :: "string \<Rightarrow> bool"
  setter_throws :: "setter \<Rightarrow> bool"
  getStreamMTU :: size_t
  setupStream :: "string \<Rightarrow> bool"
  now_utc_compact :: string
  fopen :: "string \<Rightarrow> bool"
  ticks :: "tick list"
  fclose :: "byte list \<Rightarrow> byte list"
  ofstream :: "string \<Rightarrow> bool"

subsection \<open>Rendering numbers in the file name (line 137)\<close>

definition digit :: "nat \<Rightarrow> char" where
  "digit d = ''0123456789'' ! d"

function show_nat :: "nat \<Rightarrow> string" where
  "show_nat n = (if n < 10 then [digit n] else show_nat (n div 10) @ [digit (n mod 10)])"
  by pat_completeness auto
termination
  by (relation "measure id") auto

definition show_int :: "int \<Rightarrow> string" where
  "show_int i = (if i < 0 then CHR ''-'' # show_nat (nat (- i)) else show_nat (nat i))"

text \<open>
  \<^verbatim>\<open>static_cast<uint64_t>\<close> of a double truncates towards zero and is undefined when
  the truncated value is not a \<^verbatim>\<open>uint64_t\<close>.
\<close>

definition u64_of_double :: "real \<Rightarrow> nat option" where
  "u64_of_double x = (if - 1 < x \<and> x < 2 ^ 64 then Some (nat \<lfloor>x\<rfloor>) else None)"

subsection \<open>Exceptions of the device setters (lines 125--132)\<close>

definition attempt :: "world \<Rightarrow> setter \<Rightarrow> string + unit" where
  "attempt w s = (if setter_throws w s then Inl ''setter failed'' else Inr ())"

text \<open>\<^verbatim>\<open>try { ... } catch(...) {}\<close>\<close>

definition try_catch_all :: "string + unit \<Rightarrow> string + unit" where
  "try_catch_all r = (case r of Inl e \<Rightarrow> Inr () | Inr u \<Rightarrow> Inr u)"

definition configure_rx :: "world \<Rightarrow> config \<Rightarrow> real \<Rightarrow> event list \<times> (string + unit)" where
  "configure_rx w c f =
     (case attempt w SampleRate of
        Inl e \<Rightarrow> ([SetSampleRate (sampRate c)], Inl e)
      | Inr _ \<Rightarrow>
     (case attempt w Bandwidth of
        Inl e \<Rightarrow> ([SetSampleRate (sampRate c), SetBandwidth (rfBw c)], Inl e)
      | Inr _ \<Rightarrow>
     (case attempt w Frequency of
        Inl e \<Rightarrow> ([SetSampleRate (sampRate c), SetBandwidth (rfBw c), SetFrequency f], Inl e)
      | Inr _ \<Rightarrow>
     (case try_catch_all (attempt w DCOffsetMode) of
        Inl e \<Rightarrow> ([SetSampleRate (sampRate c), SetBandwidth (rfBw c), SetFrequency f,
                   SetDCOffsetMode True], Inl e)
      | Inr _ \<Rightarrow>
     (case try_catch_all (attempt w IQBalance) of
        Inl e \<Rightarrow> ([SetSampleRate (sampRate c), SetBandwidth (rfBw c), SetFrequency f,
                   SetDCOffsetMode True, SetIQBalance], Inl e)
      | Inr _ \<Rightarrow>
     (case try_catch_all (attempt w Gain) of
        Inl e \<Rightarrow> ([SetSampleRate (sampRate c), SetBandwidth (rfBw c), SetFrequency f,
                   SetDCOffsetMode True, SetIQBalance, SetGain (gain c)], Inl e)
      | Inr _ \<Rightarrow> ([SetSampleRate (sampRate c), SetBandwidth (rfBw c), SetFrequency f,
                   SetDCOffsetMode True, SetIQBalance, SetGain (gain c)], Inr ())))))))"

subsection \<open>From enumeration to the open output file (lines 112--163)\<close>

text \<open>
  The locals of \<^verbatim>\<open>main\<close> that are alive in the loop and after it. Of \<^verbatim>\<open>results\<close>
  only \<^verbatim>\<open>results.front()\<close> is used; it is taken where the list is known not to be
  empty, after the test of line 113.
\<close>

record session =
  cfg :: config
  results_front :: Kwargs
  freq :: real
  ts :: string
  elemSize :: size_t
  mtu :: size_t
  binPath :: string
  jsonPath :: string

definition elem_size :: "soapy \<Rightarrow> string \<Rightarrow> size_t" where
  "elem_size cs fm = (if fm = SOAPY_SDR_CF32 cs then 4 * 2 else 2 * 2)"

definition bin_ext :: "soapy \<Rightarrow> string \<Rightarrow> string" where
  "bin_ext cs fm = (if fm = SOAPY_SDR_CF32 cs then ''.cf32'' else ''.cs16'')"

definition base_name :: "config \<Rightarrow> nat \<Rightarrow> nat \<Rightarrow> string \<Rightarrow> string" where
  "base_name c fhz sps stamp =
     outDir c @ ''/wifi2g_ch'' @ show_int (wifiCh c) @ ''_'' @ show_nat fhz @ ''Hz_''
       @ show_nat sps @ ''sps_'' @ stamp"

text \<open>
  Each \<^verbatim>\<open>return 1\<close> after \<^verbatim>\<open>Device::make\<close> destroys the \<^verbatim>\<open>unique_ptr\<close>, which deletes
  the device; that is the event \<open>DeleteDevice\<close>.
\<close>

definition prepare :: "soapy \<Rightarrow> world \<Rightarrow> config \<Rightarrow> (event list \<times> outcome) + (event list \<times> session)" where
  "prepare cs w c =
     (let res = Device_enumerate w (devArgs c);
          e1 = [Enumerate (devArgs c)]
      in if res = [] then Inl (e1 @ [Stderr (NoDevices (devArgs c))], Exit 1)
      else
        let e2 = e1 @ [Stderr (FoundDevices (length res)), Make (devArgs c)]
        in if \<not> Device_make w (devArgs c) then Inl (e2 @ [Stderr MakeFailed], Exit 1)
        else
          (case wifi2g_ch_to_hz (wifiCh c) of
             Inl e \<Rightarrow> Inl (e2, Terminate e)
           | Inr f \<Rightarrow>
          (case configure_rx w c f of
             (e3, Inl e) \<Rightarrow> Inl (e2 @ e3, Terminate e)
           | (e3, Inr _) \<Rightarrow>
          (case u64_of_double f of
             None \<Rightarrow> Inl (e2 @ e3, Undefined)
           | Some fhz \<Rightarrow>
          (case u64_of_double (sampRate c) of
             None \<Rightarrow> Inl (e2 @ e3, Undefined)
           | Some sps \<Rightarrow>
             let stamp = now_utc_compact w;
                 base = base_name c fhz sps stamp;
                 e4 = e2 @ e3 @ [GetStreamMTU, SetupStream (fmt c)]
             in if \<not> setupStream w (fmt c)
                then Inl (e4 @ [Stderr SetupStreamFailed, DeleteDevice], Exit 1)
                else
                  let bp = base @ bin_ext cs (fmt c);
                      e5 = e4 @ [ActivateStream, Fopen bp]
                  in if \<not> fopen w bp
                     then Inl (e5 @ [Stderr (OpenFailed bp), DeleteDevice], Exit 1)
                     else Inr (e5 @ [Stderr (Capturing (seconds c) (sampRate c) (wifiCh c) f
                                          (getStreamMTU w) (fmt c))],
                               \<lparr> cfg = c, results_front = hd res, freq = f, ts = stamp,
                                 elemSize = elem_size cs (fmt c), mtu = getStreamMTU w,
                                 binPath = bp, jsonPath = base @ ''.json'' \<rparr>))))))"

subsection \<open>The streaming loop (lines 159--187)\<close>

record state =
  buffer :: "byte list"
  f_data :: "byte list"
  totalSamps :: size_t
  trace :: "event list"

datatype loop_exit = Cancelled | DurationReached | ReadError int | ShortWrite | BufferOverrun

text \<open>\<^verbatim>\<open>buffer.resize(mtu * elemSize)\<close>: the product is taken in \<^verbatim>\<open>size_t\<close>.\<close>

definition start :: "session \<Rightarrow> event list \<Rightarrow> state" where
  "start s es = \<lparr> buffer = replicate (unat (mtu s * elemSize s)) 0, f_data = [],
                 totalSamps = 0, trace = es \<rparr>"

text \<open>The driver overwrites the front of the buffer; the buffer keeps its size.\<close>

definition store :: "byte list \<Rightarrow> byte list \<Rightarrow> byte list" where
  "store d b = take (length b) d @ drop (length d) b"

text \<open>
  An empty script means that the loop is still running when the script ends: \<open>None\<close>.
  \<^verbatim>\<open>fwrite\<close> reads \<^verbatim>\<open>ret * elemSize\<close> bytes from the buffer; a \<^verbatim>\<open>ret\<close> above what the
  buffer holds reads past its end, which is undefined: \<open>BufferOverrun\<close>. \<^verbatim>\<open>fwrite\<close>
  returns the number of whole elements written.
\<close>

fun streaming_loop :: "soapy \<Rightarrow> session \<Rightarrow> tick list \<Rightarrow> state \<Rightarrow> (state \<times> loop_exit) option" where
  "streaming_loop cs s [] st = None"
| "streaming_loop cs s (t # tks) st =
     (if g_stop t then Some (st, Cancelled)
      else if seconds (cfg s) \<le> elapsed t then Some (st, DurationReached)
      else
        let st1 = st\<lparr> buffer := store (delivered t) (buffer st),
                      trace := trace st @ [ReadStream (mtu s)] \<rparr>
        in if ret t = SOAPY_SDR_TIMEOUT cs then streaming_loop cs s tks st1
        else if ret t = SOAPY_SDR_OVERFLOW cs
          then streaming_loop cs s tks (st1\<lparr> trace := trace st1 @ [Stderr WarnOverflow] \<rparr>)
        else if ret t < 0
          then Some (st1\<lparr> trace := trace st1 @ [Stderr (ErrReadStream (ret t))] \<rparr>,
                     ReadError (ret t))
        else
          let nbytes = nat (ret t) * unat (elemSize s)
          in if length (buffer st1) < nbytes then Some (st1, BufferOverrun)
          else
            let put = take (accepted t) (take nbytes (buffer st1));
                wrote = length put div unat (elemSize s);
                st2 = st1\<lparr> f_data := f_data st1 @ put, trace := trace st1 @ [Fwrite put] \<rparr>
            in if wrote \<noteq> nat (ret t)
               then Some (st2\<lparr> trace := trace st2 @ [Stderr ErrShortWrite] \<rparr>, ShortWrite)
               else streaming_loop cs s tks
                      (st2\<lparr> totalSamps := totalSamps st2 + word_of_int (ret t) \<rparr>))"

subsection \<open>Teardown and the sidecar (lines 46--67 and 189--201)\<close>

text \<open>
  \<^verbatim>\<open>write_sidecar_json\<close> constructs the \<^verbatim>\<open>ofstream\<close> and inserts the fields; it never
  tests the stream. When the open failed the insertions do nothing and no file appears.
  \<^verbatim>\<open>results.front()["label"]\<close> is \<^verbatim>\<open>std::map::operator[]\<close>: a missing key reads as
  the empty string.
\<close>

definition write_sidecar_json :: "(string \<Rightarrow> bool) \<Rightarrow> string \<Rightarrow> string \<Rightarrow> string \<Rightarrow> real \<Rightarrow> real
    \<Rightarrow> size_t \<Rightarrow> string \<Rightarrow> string \<Rightarrow> (string \<times> sidecar) option" where
  "write_sidecar_json opens pathJson rad drv centerHz rate nsamps fm ts_utc =
     (if opens pathJson
      then Some (pathJson,
             \<lparr> schema = ''soapywifi.capture.v1'', radio = rad, driver = drv,
               center_hz = centerHz, sample_rate = rate, samples = nsamps, format = fm,
               timestamp_utc = ts_utc \<rparr>)
      else None)"

definition kw_get :: "Kwargs \<Rightarrow> string \<Rightarrow> string" where
  "kw_get kw k = (case map_of kw k of None \<Rightarrow> [] | Some v \<Rightarrow> v)"

record run =
  events :: "event list"
  result :: outcome
  bin_file :: "(string \<times> byte list) option"
  json_file :: "(string \<times> sidecar) option"

text \<open>
  The teardown of lines 189--192 and what is left when \<^verbatim>\<open>main\<close> returns: the binary
  file holds what \<^verbatim>\<open>fclose\<close> has brought into it of the bytes in the stream, and
  the sidecar is there when its stream has opened.
\<close>

definition finish :: "world \<Rightarrow> session \<Rightarrow> state \<Rightarrow> run" where
  "finish w s st =
     \<lparr> events = trace st @ [DeactivateStream, CloseStream, Unmake, Fclose,
                  Ofstream (jsonPath s),
                  Stderr (Done (totalSamps st) (binPath s)), Stderr (SidecarAt (jsonPath s))],
       result = Exit 0,
       bin_file = Some (binPath s, fclose w (f_data st)),
       json_file = write_sidecar_json (ofstream w) (jsonPath s)
                     (kw_get (results_front s) ''label'') (kw_get (results_front s) ''driver'')
                     (freq s) (sampRate (cfg s)) (totalSamps st) (fmt (cfg s)) (ts s) \<rparr>"

text \<open>
  After the loop, whatever ended it (lines 189--201). A run that has read past the buffer
  is undefined from there on.
\<close>

definition settle :: "world \<Rightarrow> session \<Rightarrow> (state \<times> loop_exit) option \<Rightarrow> run option" where
  "settle w s l =
     (case l of
        None \<Rightarrow> None
      | Some (st, why) \<Rightarrow>
          if why = BufferOverrun
          then Some \<lparr> events = trace st, result = Undefined,
                      bin_file = Some (binPath s, f_data st), json_file = None \<rparr>
          else Some (finish w s st))"

definition capture :: "soapy \<Rightarrow> world \<Rightarrow> session \<Rightarrow> event list \<Rightarrow> tick list \<Rightarrow> run option" where
  "capture cs w s es tks = settle w s (streaming_loop cs s tks (start s es))"

subsection \<open>\<^verbatim>\<open>main\<close>\<close>

text \<open>
  The registration of the log handler and of the signal handlers (lines 70--75) has no
  event: the handler's only effect is the \<^verbatim>\<open>g_stop\<close> that a tick reports.
\<close>

definition main :: "soapy \<Rightarrow> world \<Rightarrow> string list \<Rightarrow> run option" where
  "main cs w args =
     (case parse_cli (stoi w) (stod w) args (defaults cs) of
        Stopped es out \<Rightarrow>
          Some \<lparr> events = es, result = out, bin_file = None, json_file = None \<rparr>
      | Parsed c \<Rightarrow>
          (case prepare cs w c of
             Inl (es, out) \<Rightarrow>
               Some \<lparr> events = es, result = out, bin_file = None, json_file = None \<rparr>
           | Inr (es, s) \<Rightarrow> capture cs w s es (ticks w)))"

subsection \<open>Vocabulary of the statements\<close>





definition configures :: "event \<Rightarrow> bool" where
  "configures e =
     (case e of SetSampleRate _ \<Rightarrow> True | SetBandwidth _ \<Rightarrow> True | SetFrequency _ \<Rightarrow> True
      | SetDCOffsetMode _ \<Rightarrow> True | SetIQBalance \<Rightarrow> True | SetGain _ \<Rightarrow> True
      | GetStreamMTU \<Rightarrow> True | SetupStream _ \<Rightarrow> True | ActivateStream \<Rightarrow> True
      | _ \<Rightarrow> False)"

text \<open>The events of the teardown and of the sidecar writer.\<close>

definition closes :: "event \<Rightarrow> bool" where
  "closes e =
     (case e of DeactivateStream \<Rightarrow> True | CloseStream \<Rightarrow> True | Unmake \<Rightarrow> True
      | Fclose \<Rightarrow> True | Ofstream _ \<Rightarrow> True | _ \<Rightarrow> False)"

text \<open>
  The setup gets as far as the stream: a device is found and made, the channel is one of
  the fourteen, none of the three mandatory setters throws and the sample rate fits the
  cast. Then the path of the output file is this.
\<close>

definition gets_configured :: "world \<Rightarrow> config \<Rightarrow> real \<Rightarrow> nat \<Rightarrow> bool" where
  "gets_configured w c f sps \<longleftrightarrow>
     Device_enumerate w (devArgs c) \<noteq> [] \<and> Device_make w (devArgs c) \<and>
     wifi2g_ch_to_hz (wifiCh c) = Inr f \<and>
     \<not> setter_throws w SampleRate \<and> \<not> setter_throws w Bandwidth \<and>
     \<not> setter_throws w Frequency \<and>
     u64_of_double (sampRate c) = Some sps"

definition bin_path :: "soapy \<Rightarrow> world \<Rightarrow> config \<Rightarrow> real \<Rightarrow> nat \<Rightarrow> string" where
  "bin_path cs w c f sps = base_name c (nat \<lfloor>f\<rfloor>) sps (now_utc_compact w) @ bin_ext cs (fmt c)"

definition value_flags :: "string list" where
  "value_flags = [''--args'', ''--chan'', ''--rate'', ''--bw'', ''--gain'', ''--out'',
                  ''--secs'', ''--fmt'']"

subsection \<open>A concrete world\<close>

text \<open>
  The values of SoapySDR's headers, one device, a transfer unit of two samples, a disk
  that takes everything, and a script: a read of two samples, an overflow, a timeout, a
  read of one sample, and then the clock at one second.
\<close>

definition soapy0 :: soapy where
  "soapy0 = \<lparr> SOAPY_SDR_CF32 = ''CF32'', SOAPY_SDR_TIMEOUT = - 1, SOAPY_SDR_OVERFLOW = - 4 \<rparr>"

definition tick0 :: tick where
  "tick0 = \<lparr> g_stop = False, elapsed = 0, ret = 0, delivered = [], accepted = 0 \<rparr>"

definition two_samples :: tick where
  "two_samples = tick0\<lparr> ret := 2,
     delivered := [1, 2, 3, 4, 5, 6, 7, 8, 9, 10, 11, 12, 13, 14, 15, 16], accepted := 16 \<rparr>"

definition one_sample :: tick where
  "one_sample = tick0\<lparr> ret := 1, delivered := [21, 22, 23, 24, 25, 26, 27, 28],
     accepted := 16 \<rparr>"

definition world0 :: world where
  "world0 = \<lparr> stoi = (\<lambda>a. if a = ''0'' then Some 0 else if a = ''6'' then Some 6 else None),
     stod = (\<lambda>a. if a = ''1'' then Some 1 else None),
     Device_enumerate = (\<lambda>a. [[(''driver'', ''lime''), (''label'', ''LimeSDR'')]]),
     Device_make = (\<lambda>a. True),
     setter_throws = (\<lambda>x. False),
     getStreamMTU = 2,
     setupStream = (\<lambda>a. True),
     now_utc_compact = ''20240101T000000Z'',
     fopen = (\<lambda>p. True),
     ticks = [two_samples, tick0\<lparr> ret := - 4 \<rparr>, tick0\<lparr> ret := - 1 \<rparr>, one_sample,
              tick0\<lparr> elapsed := 1 \<rparr>],
     fclose = (\<lambda>d. d),
     ofstream = (\<lambda>p. True) \<rparr>"

text \<open>
  What the setup leaves behind in that world when the command line is \<^verbatim>\<open>--secs 1\<close>: the
  events so far and the session.
\<close>

definition setup0 :: "event list" where
  "setup0 = [Enumerate [], Stderr (FoundDevices 1), Make [], SetSampleRate 20000000,
     SetBandwidth 25000000, SetFrequency 2437000000, SetDCOffsetMode True, SetIQBalance,
     SetGain 40, GetStreamMTU, SetupStream ''CF32'', ActivateStream,
     Fopen ''./captures/wifi2g_ch6_2437000000Hz_20000000sps_20240101T000000Z.cf32'',
     Stderr (Capturing 1 20000000 6 2437000000 2 ''CF32'')]"

definition session0 :: session where
  "session0 = \<lparr> cfg = (defaults soapy0)\<lparr> seconds := 1 \<rparr>,
     results_front = [(''driver'', ''lime''), (''label'', ''LimeSDR'')], freq = 2437000000,
     ts = ''20240101T000000Z'', elemSize = 8, mtu = 2,
     binPath = ''./captures/wifi2g_ch6_2437000000Hz_20000000sps_20240101T000000Z.cf32'',
     jsonPath = ''./captures/wifi2g_ch6_2437000000Hz_20000000sps_20240101T000000Z.json'' \<rparr>"

text \<open>The state in which the loop of that world ends, and the sidecar of a capture there.\<close>

definition end0 :: state where
  "end0 = \<lparr> buffer = [21, 22, 23, 24, 25, 26, 27, 28, 9, 10, 11, 12, 13, 14, 15, 16],
     f_data = [1, 2, 3, 4, 5, 6, 7, 8, 9, 10, 11, 12, 13, 14, 15, 16,
               21, 22, 23, 24, 25, 26, 27, 28],
     totalSamps = 3,
     trace = setup0 @
       [ReadStream 2, Fwrite [1, 2, 3, 4, 5, 6, 7, 8, 9, 10, 11, 12, 13, 14, 15, 16],
        ReadStream 2, Stderr WarnOverflow, ReadStream 2,
        ReadStream 2, Fwrite [21, 22, 23, 24, 25, 26, 27, 28]] \<rparr>"

definition sidecar0 :: "size_t \<Rightarrow> sidecar" where
  "sidecar0 n = \<lparr> schema = ''soapywifi.capture.v1'', radio = ''LimeSDR'', driver = ''lime'',
     center_hz = 2437000000, sample_rate = 20000000, samples = n, format = ''CF32'',
     timestamp_utc = ''20240101T000000Z'' \<rparr>"

text \<open>
  Variations: the operator interrupts before the first read; the output file does not
  open; the sidecar does not open; the disk takes one of two samples; two reads of two
  samples each and then the duration; the same with a last flush that fails and leaves
  24 of the 32 bytes in the file; a read, an overflow and then a read error; the same
  with a last flush that leaves 8 of the 16 bytes and a sidecar that does not open.
\<close>

definition world_cancelled :: world where
  "world_cancelled = world0\<lparr> ticks := [tick0\<lparr> g_stop := True \<rparr>] \<rparr>"

definition world_no_output :: world where
  "world_no_output = world0\<lparr> fopen := (\<lambda>p. False) \<rparr>"

definition world_no_sidecar :: world where
  "world_no_sidecar = world_cancelled\<lparr> ofstream := (\<lambda>p. False) \<rparr>"

definition world_short_write :: world where
  "world_short_write = world0\<lparr> ticks := [two_samples\<lparr> accepted := 8 \<rparr>] \<rparr>"

definition world_steady :: world where
  "world_steady = world0\<lparr> ticks := [two_samples, two_samples, tick0\<lparr> elapsed := 1 \<rparr>] \<rparr>"

definition world_lost_flush :: world where
  "world_lost_flush = world_steady\<lparr> fclose := take 24 \<rparr>"

definition world_read_error :: world where
  "world_read_error = world0\<lparr> ticks := [two_samples, tick0\<lparr> ret := - 4 \<rparr>,
     tick0\<lparr> ret := - 2 \<rparr>] \<rparr>"

definition world_read_error_lossy :: world where
  "world_read_error_lossy = world_read_error\<lparr> fclose := take 8, ofstream := (\<lambda>p. False) \<rparr>"

section \<open>Properties\<close>

subsection \<open>The loop, one iteration and many\<close>





lemma loop_cancelled: "g_stop t \<Longrightarrow> streaming_loop cs s (t # tks) st = Some (st, Cancelled)"
  by simp

lemma loop_duration:
  "\<not> g_stop t \<Longrightarrow> seconds (cfg s) \<le> elapsed t
   \<Longrightarrow> streaming_loop cs s (t # tks) st = Some (st, DurationReached)"
  by simp



subsection \<open>Setup and the command line\<close>

lemma try_catch_all_returns: "try_catch_all r = Inr ()"
  by (cases r) (simp_all add: try_catch_all_def)

lemma configure_rx_cases:
  "configure_rx w c f =
     (if setter_throws w SampleRate then ([SetSampleRate (sampRate c)], Inl ''setter failed'')
      else if setter_throws w Bandwidth
        then ([SetSampleRate (sampRate c), SetBandwidth (rfBw c)], Inl ''setter failed'')
      else if setter_throws w Frequency
        then ([SetSampleRate (sampRate c), SetBandwidth (rfBw c), SetFrequency f],
              Inl ''setter failed'')
      else ([SetSampleRate (sampRate c), SetBandwidth (rfBw c), SetFrequency f,
             SetDCOffsetMode True, SetIQBalance, SetGain (gain c)], Inr ()))"
  by (simp add: configure_rx_def attempt_def try_catch_all_returns)

lemma closes_simps:
  "\<not> closes (Stderr m)" "\<not> closes (Stdout m)" "\<not> closes (Enumerate a)" "\<not> closes (Make a)"
  "\<not> closes (SetSampleRate x)" "\<not> closes (SetBandwidth x)" "\<not> closes (SetFrequency x)"
  "\<not> closes (SetDCOffsetMode b)" "\<not> closes SetIQBalance" "\<not> closes (SetGain x)"
  "\<not> closes GetStreamMTU" "\<not> closes (SetupStream a)" "\<not> closes ActivateStream"
  "\<not> closes (Fopen a)" "\<not> closes (ReadStream n)" "\<not> closes (Fwrite d)"
  "\<not> closes DeleteDevice"
  "closes DeactivateStream" "closes CloseStream" "closes Unmake" "closes Fclose"
  "closes (Ofstream a)"
  by (simp_all add: closes_def)

lemma configure_rx_no_closes:
  "configure_rx w c f = (es, r) \<Longrightarrow> e \<in> set es \<Longrightarrow> closes e \<Longrightarrow> False"
  by (auto simp: configure_rx_cases closes_simps split: if_splits)


lemma prepare_no_closes:
  "prepare cs w c = Inr (es, s) \<Longrightarrow> e \<in> set es \<Longrightarrow> \<not> closes e"
  "prepare cs w c = Inl (es, out) \<Longrightarrow> e \<in> set es \<Longrightarrow> \<not> closes e"
  by (auto simp: prepare_def Let_def closes_simps
      split: if_splits sum.splits prod.splits option.splits
      dest: configure_rx_no_closes)


lemma configures_simps:
  "\<not> configures (Stderr m)" "\<not> configures (Stdout m)" "\<not> configures (Enumerate a)"
  "\<not> configures (Make a)" "\<not> configures (Fopen a)" "\<not> configures DeleteDevice"
  by (simp_all add: configures_def)

lemma loop_no_closes:
  "streaming_loop cs s tks st = Some (st', why)
   \<Longrightarrow> \<exists>new. trace st' = trace st @ new \<and> (\<forall>e\<in>set new. \<not> closes e)"
proof (induction tks arbitrary: st)
  case Nil
  then show ?case by simp
next
  case (Cons t tks)
  show ?case
    using Cons.prems
    by (auto simp: Let_def closes_simps split: if_splits dest!: Cons.IH)
qed

lemma parse_append_flag:
  "parse_cli si sd pre c0 = Parsed c \<Longrightarrow> parse_cli si sd (pre @ [a]) c0 = parse_cli si sd [a] c"
proof (induction si sd pre c0 rule: parse_cli.induct)
  case (1 si sd c)
  then show ?case by simp
next
  case (2 si sd b c)
  then show ?case by (simp split: if_splits)
next
  case (3 si sd b v rest c)
  then show ?case by (simp split: if_splits option.splits del: parse_cli.simps(2))
qed

lemma parse_one_stopped:
  "parse_cli si sd [b] c = Stopped es out
   \<Longrightarrow> es = [Stdout Usage] \<or> es = [Stderr (MissingValue b)]"
  by (simp split: if_splits)

lemma parse_step_stopped:
  "parse_cli si sd (b # v # rest) c = Stopped es out
   \<Longrightarrow> es = [] \<or> es = [Stdout Usage] \<or> (\<exists>c'. parse_cli si sd rest c' = Stopped es out)
       \<or> parse_cli si sd (v # rest) c = Stopped es out"
  by (simp split: if_splits option.splits del: parse_cli.simps(2)) blast+

lemma parse_stopped_events:
  "parse_cli si sd args c0 = Stopped es out
   \<Longrightarrow> list_all (\<lambda>e. \<not> closes e \<and> \<not> configures e) es"
proof (induction args arbitrary: c0 rule: length_induct)
  case (1 args)
  show ?case
  proof (cases args)
    case Nil
    with "1.prems" show ?thesis by simp
  next
    case (Cons b more)
    show ?thesis
    proof (cases more)
      case Nil
      with Cons "1.prems" have "es = [Stdout Usage] \<or> es = [Stderr (MissingValue b)]"
        using parse_one_stopped by blast
      then show ?thesis by (auto simp: closes_simps configures_simps)
    next
      case (Cons v rest)
      with \<open>args = b # more\<close> "1.prems"
      have "parse_cli si sd (b # v # rest) c0 = Stopped es out" by simp
      from parse_step_stopped [OF this]
      consider "es = []" | "es = [Stdout Usage]"
        | c' where "parse_cli si sd rest c' = Stopped es out"
        | "parse_cli si sd (v # rest) c0 = Stopped es out"
        by blast
      then show ?thesis
      proof cases
        case 1
        then show ?thesis by simp
      next
        case 2
        then show ?thesis by (simp add: closes_simps configures_simps)
      next
        case 3
        moreover have "length rest < length args"
          using Cons \<open>args = b # more\<close> by simp
        ultimately show ?thesis using "1.IH" by blast
      next
        case 4
        moreover have "length (v # rest) < length args"
          using Cons \<open>args = b # more\<close> by simp
        ultimately show ?thesis using "1.IH" by blast
      qed
    qed
  qed
qed

lemma main_streams:
  "parse_cli (stoi w) (stod w) args (defaults cs) = Parsed c \<Longrightarrow> prepare cs w c = Inr (es, s)
   \<Longrightarrow> main cs w args = settle w s (streaming_loop cs s (ticks w) (start s es))"
  by (simp add: main_def capture_def)

lemma start_state:
  "buffer (start s es) = replicate (unat (mtu s * elemSize s)) 0" "f_data (start s es) = []"
  "totalSamps (start s es) = 0" "trace (start s es) = es"
  by (simp_all add: start_def)

lemmas run_defs = main_def prepare_def Let_def wifi2g_ch_to_hz_def configure_rx_def attempt_def
  try_catch_all_def u64_of_double_def capture_def settle_def start_def store_def finish_def
  elem_size_def bin_ext_def base_name_def write_sidecar_json_def kw_get_def show_int_def
  digit_def

lemmas world0_defs = soapy0_def world0_def tick0_def two_samples_def one_sample_def defaults_def
  world_cancelled_def world_no_output_def world_no_sidecar_def world_short_write_def
  world_steady_def world_read_error_def world_lost_flush_def world_read_error_lossy_def

lemma prepare_bad_channel:
  assumes "wifiCh c < 1 \<or> 14 < wifiCh c"
  shows "\<exists>es out. prepare cs w c = Inl (es, out) \<and> list_all (\<lambda>e. \<not> configures e) es
           \<and> (out = Exit 1 \<or> out = Terminate ''Unsupported 2.4 GHz channel'')"
proof -
  from assms have "wifi2g_ch_to_hz (wifiCh c) = Inl ''Unsupported 2.4 GHz channel''"
    by (auto simp: wifi2g_ch_to_hz_def)
  then show ?thesis
    by (simp add: prepare_def Let_def configures_simps)
qed

subsection \<open>Whole runs\<close>

lemma channel_hz_u64: "wifi2g_ch_to_hz ch = Inr f \<Longrightarrow> u64_of_double f = Some (nat \<lfloor>f\<rfloor>)"
  by (auto simp: wifi2g_ch_to_hz_def u64_of_double_def split: if_splits)

lemma prepare_configured:
  assumes "gets_configured w c f sps"
  shows "prepare cs w c =
     (let base = base_name c (nat \<lfloor>f\<rfloor>) sps (now_utc_compact w);
          e4 = [Enumerate (devArgs c), Stderr (FoundDevices (length (Device_enumerate w (devArgs c)))),
                Make (devArgs c), SetSampleRate (sampRate c), SetBandwidth (rfBw c),
                SetFrequency f, SetDCOffsetMode True, SetIQBalance, SetGain (gain c),
                GetStreamMTU, SetupStream (fmt c)]
      in if \<not> setupStream w (fmt c)
         then Inl (e4 @ [Stderr SetupStreamFailed, DeleteDevice], Exit 1)
         else if \<not> fopen w (base @ bin_ext cs (fmt c))
         then Inl (e4 @ [ActivateStream, Fopen (base @ bin_ext cs (fmt c)),
                         Stderr (OpenFailed (base @ bin_ext cs (fmt c))), DeleteDevice], Exit 1)
         else Inr (e4 @ [ActivateStream, Fopen (base @ bin_ext cs (fmt c)),
                         Stderr (Capturing (seconds c) (sampRate c) (wifiCh c) f
                                   (getStreamMTU w) (fmt c))],
                   \<lparr> cfg = c, results_front = hd (Device_enumerate w (devArgs c)), freq = f,
                     ts = now_utc_compact w, elemSize = elem_size cs (fmt c),
                     mtu = getStreamMTU w, binPath = base @ bin_ext cs (fmt c),
                     jsonPath = base @ ''.json'' \<rparr>))"
proof -
  from assms have "wifi2g_ch_to_hz (wifiCh c) = Inr f"
    by (simp add: gets_configured_def)
  then have u: "u64_of_double f = Some (nat \<lfloor>f\<rfloor>)"
    by (rule channel_hz_u64)
  from assms u show ?thesis
    by (simp add: gets_configured_def prepare_def configure_rx_cases Let_def)
qed

lemma configure_rx_best_effort:
  "configure_rx (w\<lparr> setter_throws := (setter_throws w)(DCOffsetMode := a, IQBalance := b, Gain := g) \<rparr>) c f
   = configure_rx w c f"
  by (simp add: configure_rx_cases)

lemma prepare_best_effort:
  "prepare cs (w\<lparr> setter_throws := (setter_throws w)(DCOffsetMode := a, IQBalance := b, Gain := g) \<rparr>) c
   = prepare cs w c"
  by (auto simp: prepare_def configure_rx_best_effort Let_def
      split: sum.splits option.splits prod.splits)

lemma finish_setter_throws: "finish (w\<lparr> setter_throws := x \<rparr>) s st = finish w s st"
  by (simp add: finish_def)

lemma settle_setter_throws: "settle (w\<lparr> setter_throws := x \<rparr>) s l = settle w s l"
  by (auto simp: settle_def finish_setter_throws split: option.splits)

lemma teardown_means_exit_0:
  assumes m: "main cs w args = Some r" and d: "DeactivateStream \<in> set (events r)"
  shows "result r = Exit 0"
proof (cases "parse_cli (stoi w) (stod w) args (defaults cs)")
  case (Stopped es out)
  with m have "events r = es" by (auto simp: main_def)
  with parse_stopped_events [OF Stopped] d have "\<not> closes DeactivateStream"
    by (auto simp: list_all_iff)
  then show ?thesis by (simp add: closes_simps)
next
  case (Parsed c)
  show ?thesis
  proof (cases "prepare cs w c")
    case (Inl p)
    obtain es out where p: "p = (es, out)" by (cases p)
    with m Parsed Inl have "events r = es" by (auto simp: main_def)
    with prepare_no_closes(2) [of cs w c es out DeactivateStream] Inl p d
    show ?thesis by (simp add: closes_simps)
  next
    case (Inr p)
    obtain es s where p: "p = (es, s)" by (cases p)
    from m Parsed Inr p
    have s: "settle w s (streaming_loop cs s (ticks w) (start s es)) = Some r"
      by (simp add: main_streams)
    then obtain st why where l: "streaming_loop cs s (ticks w) (start s es) = Some (st, why)"
      by (cases "streaming_loop cs s (ticks w) (start s es)") (auto simp: settle_def)
    show ?thesis
    proof (cases "why = BufferOverrun")
      case True
      with s l have e: "events r = trace st" by (auto simp: settle_def)
      from loop_no_closes [OF l] obtain new where
        n: "trace st = es @ new" "\<forall>e\<in>set new. \<not> closes e"
        by (auto simp: start_state)
      from d e n have "DeactivateStream \<in> set es \<or> DeactivateStream \<in> set new" by simp
      with n(2) prepare_no_closes(1) [of cs w c es s DeactivateStream] Inr p
      show ?thesis by (auto simp: closes_simps)
    next
      case False
      with s l show ?thesis by (auto simp: settle_def finish_def)
    qed
  qed
qed



lemma teardown_after_loop:
  assumes "streaming_loop cs s tks (start s es) = Some (st, why)" and "why \<noteq> BufferOverrun"
  shows "\<exists>r. capture cs w s es tks = Some r \<and> result r = Exit 0
           \<and> events r = trace st @ [DeactivateStream, CloseStream, Unmake, Fclose,
                 Ofstream (jsonPath s), Stderr (Done (totalSamps st) (binPath s)),
                 Stderr (SidecarAt (jsonPath s))]"
  using assms by (simp add: capture_def settle_def finish_def)

lemma open_failure_after_activation:
  assumes "gets_configured w c f sps" and "setupStream w (fmt c)"
    and "\<not> fopen w (bin_path cs w c f sps)"
  shows "\<exists>es. prepare cs w c = Inl (es, Exit 1) \<and> ActivateStream \<in> set es
           \<and> list_all (\<lambda>e. \<not> closes e) es"
  using assms(2,3)
  by (simp add: prepare_configured [OF assms(1)] bin_path_def Let_def closes_simps)

lemma main_cases:
  assumes m: "main cs w args = Some r"
  obtains (early) "list_all (\<lambda>e. \<not> closes e) (events r)" and "json_file r = None"
  | (torn) c es s st why where
      "parse_cli (stoi w) (stod w) args (defaults cs) = Parsed c"
      "prepare cs w c = Inr (es, s)"
      "streaming_loop cs s (ticks w) (start s es) = Some (st, why)"
      "why \<noteq> BufferOverrun" "r = finish w s st"
      "list_all (\<lambda>e. \<not> closes e) (trace st)"
proof (cases "parse_cli (stoi w) (stod w) args (defaults cs)")
  case (Stopped es out)
  with m have "events r = es" "json_file r = None" by (auto simp: main_def)
  with parse_stopped_events [OF Stopped] early show ?thesis
    by (simp add: list_all_iff)
next
  case (Parsed c)
  show ?thesis
  proof (cases "prepare cs w c")
    case (Inl p)
    obtain es out where p: "p = (es, out)" by (cases p)
    with m Parsed Inl have "events r = es" "json_file r = None" by (auto simp: main_def)
    with prepare_no_closes(2) [of cs w c es out] Inl p early show ?thesis
      by (simp add: list_all_iff)
  next
    case (Inr p)
    obtain es s where p: "p = (es, s)" by (cases p)
    from m Parsed Inr p
    have s: "settle w s (streaming_loop cs s (ticks w) (start s es)) = Some r"
      by (simp add: main_streams)
    then obtain st why where l: "streaming_loop cs s (ticks w) (start s es) = Some (st, why)"
      by (cases "streaming_loop cs s (ticks w) (start s es)") (auto simp: settle_def)
    from loop_no_closes [OF l] obtain new where
      n: "trace st = es @ new" "\<forall>e\<in>set new. \<not> closes e"
      by (auto simp: start_state)
    with prepare_no_closes(1) [of cs w c es s] Inr p
    have t: "list_all (\<lambda>e. \<not> closes e) (trace st)"
      by (auto simp: list_all_iff)
    show ?thesis
    proof (cases "why = BufferOverrun")
      case True
      with s l have "events r = trace st" "json_file r = None" by (auto simp: settle_def)
      with t early show ?thesis by simp
    next
      case False
      with s l have "r = finish w s st" by (auto simp: settle_def)
      with Parsed Inr p l False t torn show ?thesis by blast
    qed
  qed
qed

lemma finish_ofstream:
  "events (finish (w\<lparr> ofstream := opn \<rparr>) s st) = events (finish w s st)"
  "result (finish (w\<lparr> ofstream := opn \<rparr>) s st) = result (finish w s st)"
  "bin_file (finish (w\<lparr> ofstream := opn \<rparr>) s st) = bin_file (finish w s st)"
  by (simp_all add: finish_def)

lemma main_ofstream:
  "map_option (\<lambda>r. (events r, result r, bin_file r)) (main cs (w\<lparr> ofstream := opn \<rparr>) args)
   = map_option (\<lambda>r. (events r, result r, bin_file r)) (main cs w args)"
proof -
  have p: "prepare cs (w\<lparr> ofstream := opn \<rparr>) c = prepare cs w c" for c
    by (auto simp: prepare_def configure_rx_cases Let_def
        split: sum.splits option.splits prod.splits)
  show ?thesis
    by (auto simp: main_def p capture_def settle_def finish_ofstream
        split: parsed.splits sum.splits prod.splits option.splits)
qed







lemmas example_defs = world0_defs setup0_def session0_def end0_def sidecar0_def

section \<open>The claims\<close>

subsection \<open>C1: the file and the count\<close>




subsection \<open>C2: teardown on every exit after activation\<close>

text \<open>
  C2. After the stream is activated, every way out should deactivate the stream, close
  it, release the device and close the file, in this order. The four ways out of the loop
  do (\<open>teardown_after_loop\<close>). The fifth way out, the output file that does not open,
  returns 1 on the spot: the stream stays active and open, and the device is deleted by
  the \<^verbatim>\<open>unique_ptr\<close> instead of being released with \<^verbatim>\<open>Device::unmake\<close>.
\<close>

theorem fopen_failure_skips_teardown:
  "main soapy0 world_no_output []
   = Some \<lparr> events =
              [Enumerate [], Stderr (FoundDevices 1), Make [], SetSampleRate 20000000,
               SetBandwidth 25000000, SetFrequency 2437000000, SetDCOffsetMode True,
               SetIQBalance, SetGain 40, GetStreamMTU, SetupStream ''CF32'', ActivateStream,
               Fopen ''./captures/wifi2g_ch6_2437000000Hz_20000000sps_20240101T000000Z.cf32'',
               Stderr (OpenFailed
                 ''./captures/wifi2g_ch6_2437000000Hz_20000000sps_20240101T000000Z.cf32''),
               DeleteDevice],
            result = Exit 1, bin_file = None, json_file = None \<rparr>"
  by (simp add: run_defs world0_defs)

subsection \<open>C3: the channel mapper\<close>

text \<open>
  C3. For every channel \<open>c\<close> from 1 to 13 the mapper returns \<open>2412e6 + 5e6 * (c - 1)\<close> Hz,
  for channel 14 it returns \<open>2484e6\<close> Hz, and for every other integer it throws
  ``Unsupported 2.4 GHz channel''; \<^verbatim>\<open>main\<close> then ends without a single configuration
  call on the device (it has either stopped before, with exit code 1, or dies of the
  exception).
\<close>

theorem channel_mapper:
  "(1 \<le> c \<and> c \<le> 13 \<longrightarrow> wifi2g_ch_to_hz c = Inr (2412000000 + 5000000 * (real_of_int c - 1)))
   \<and> wifi2g_ch_to_hz 14 = Inr 2484000000
   \<and> (c < 1 \<or> 14 < c \<longrightarrow>
        wifi2g_ch_to_hz c = Inl ''Unsupported 2.4 GHz channel''
        \<and> (parse_cli (stoi w) (stod w) args (defaults cs) = Parsed cf \<and> wifiCh cf = c \<longrightarrow>
              (\<exists>r. main cs w args = Some r \<and> list_all (\<lambda>e. \<not> configures e) (events r)
                 \<and> (result r = Exit 1
                      \<or> result r = Terminate ''Unsupported 2.4 GHz channel''))))"
proof (intro conjI impI)
  assume "1 \<le> c \<and> c \<le> 13"
  then show "wifi2g_ch_to_hz c = Inr (2412000000 + 5000000 * (real_of_int c - 1))"
    by (simp add: wifi2g_ch_to_hz_def algebra_simps)
next
  show "wifi2g_ch_to_hz 14 = Inr 2484000000"
    by (simp add: wifi2g_ch_to_hz_def)
next
  assume "c < 1 \<or> 14 < c"
  then show "wifi2g_ch_to_hz c = Inl ''Unsupported 2.4 GHz channel''"
    by (auto simp: wifi2g_ch_to_hz_def)
next
  assume bad: "c < 1 \<or> 14 < c"
    and p: "parse_cli (stoi w) (stod w) args (defaults cs) = Parsed cf \<and> wifiCh cf = c"
  from bad p have "wifiCh cf < 1 \<or> 14 < wifiCh cf" by simp
  from prepare_bad_channel [OF this, of cs w]
  obtain es out where "prepare cs w cf = Inl (es, out)"
    "list_all (\<lambda>e. \<not> configures e) es"
    "out = Exit 1 \<or> out = Terminate ''Unsupported 2.4 GHz channel''"
    by blast
  with p show "\<exists>r. main cs w args = Some r \<and> list_all (\<lambda>e. \<not> configures e) (events r)
                 \<and> (result r = Exit 1 \<or> result r = Terminate ''Unsupported 2.4 GHz channel'')"
    by (simp add: main_def)
qed

theorem channel_mapper_witness:
  "wifi2g_ch_to_hz 6 = Inr 2437000000
   \<and> wifi2g_ch_to_hz 0 = Inl ''Unsupported 2.4 GHz channel''
   \<and> parse_cli (stoi world0) (stod world0) [''--chan'', ''0''] (defaults soapy0)
       = Parsed ((defaults soapy0)\<lparr> wifiCh := 0 \<rparr>)
   \<and> (\<exists>r. main soapy0 world0 [''--chan'', ''0''] = Some r
         \<and> list_all (\<lambda>e. \<not> configures e) (events r)
         \<and> (result r = Exit 1 \<or> result r = Terminate ''Unsupported 2.4 GHz channel''))"
proof -
  have p: "parse_cli (stoi world0) (stod world0) [''--chan'', ''0''] (defaults soapy0)
       = Parsed ((defaults soapy0)\<lparr> wifiCh := 0 \<rparr>)"
    by (simp add: world0_def)
  have r6: "(1::int) \<le> 6 \<and> (6::int) \<le> 13" and r0: "(0::int) < 1 \<or> (14::int) < 0"
    by simp_all
  from channel_mapper [of 6] r6 have a: "wifi2g_ch_to_hz 6 = Inr 2437000000" by simp
  from channel_mapper [of 0 world0 "[''--chan'', ''0'']" soapy0
      "(defaults soapy0)\<lparr> wifiCh := 0 \<rparr>"] r0 p
  have "wifi2g_ch_to_hz 0 = Inl ''Unsupported 2.4 GHz channel''
     \<and> (\<exists>r. main soapy0 world0 [''--chan'', ''0''] = Some r
         \<and> list_all (\<lambda>e. \<not> configures e) (events r)
         \<and> (result r = Exit 1 \<or> result r = Terminate ''Unsupported 2.4 GHz channel''))"
    by simp
  with a p show ?thesis by blast
qed

subsection \<open>C4: a read error\<close>




subsection \<open>C5: overflow\<close>

text \<open>
  C5. A read that returns the overflow sentinel prints the warning, writes nothing to the
  file, leaves the sample count as it was and goes on with the loop: the loop from this
  iteration is the loop from the next one, in a state that differs only in the buffer
  and in the trace (the read and the warning). The two sentinels are different numbers;
  were they equal, the test for the timeout would come first and print nothing.
\<close>

theorem overflow_is_skipped:
  assumes "\<not> g_stop t" and "elapsed t < seconds (cfg s)"
    and "ret t = SOAPY_SDR_OVERFLOW cs"
    and "SOAPY_SDR_OVERFLOW cs \<noteq> SOAPY_SDR_TIMEOUT cs"
  shows "streaming_loop cs s (t # tks) st
       = streaming_loop cs s tks
           (st\<lparr> buffer := store (delivered t) (buffer st),
                 trace := trace st @ [ReadStream (mtu s), Stderr WarnOverflow] \<rparr>)"
  using assms by (simp add: Let_def)

theorem overflow_is_skipped_witness:
  "\<not> g_stop (tick0\<lparr> ret := - 4 \<rparr>)
   \<and> elapsed (tick0\<lparr> ret := - 4 \<rparr>) < seconds (cfg session0)
   \<and> ret (tick0\<lparr> ret := - 4 \<rparr>) = SOAPY_SDR_OVERFLOW soapy0
   \<and> SOAPY_SDR_OVERFLOW soapy0 \<noteq> SOAPY_SDR_TIMEOUT soapy0
   \<and> streaming_loop soapy0 session0 [tick0\<lparr> ret := - 4 \<rparr>, tick0\<lparr> g_stop := True \<rparr>]
        (start session0 [])
      = Some (\<lparr> buffer = replicate 16 0, f_data = [], totalSamps = 0,
                trace = [ReadStream 2, Stderr WarnOverflow] \<rparr>, Cancelled)"
proof -
  have h: "\<not> g_stop (tick0\<lparr> ret := - 4 \<rparr>)"
    "elapsed (tick0\<lparr> ret := - 4 \<rparr>) < seconds (cfg session0)"
    "ret (tick0\<lparr> ret := - 4 \<rparr>) = SOAPY_SDR_OVERFLOW soapy0"
    "SOAPY_SDR_OVERFLOW soapy0 \<noteq> SOAPY_SDR_TIMEOUT soapy0"
    by (simp_all add: world0_defs session0_def)
  from overflow_is_skipped [OF h, of "[tick0\<lparr> g_stop := True \<rparr>]" "start session0 []"]
  have "streaming_loop soapy0 session0 [tick0\<lparr> ret := - 4 \<rparr>, tick0\<lparr> g_stop := True \<rparr>]
        (start session0 [])
      = Some (\<lparr> buffer = replicate 16 0, f_data = [], totalSamps = 0,
                trace = [ReadStream 2, Stderr WarnOverflow] \<rparr>, Cancelled)"
    by (simp add: world0_defs session0_def start_def store_def)
  with h show ?thesis by blast
qed

subsection \<open>C6: the guard of the loop\<close>



subsection \<open>C7: exit codes\<close>

text \<open>
  C7. A run that reaches the teardown ends with exit code 0. With a command line that
  parses, the run ends with 1 when the enumeration is empty, when \<^verbatim>\<open>Device::make\<close>
  returns null, when the setup has gone as far as the stream and \<^verbatim>\<open>setupStream\<close>
  returns null, and when the output file does not open. A value flag in the last
  position, after arguments that parse, ends the run with 2 before anything else
  happens.
\<close>

theorem exit_codes:
  "(main cs w args = Some r \<and> DeactivateStream \<in> set (events r) \<longrightarrow> result r = Exit 0)
   \<and> (parse_cli (stoi w) (stod w) args (defaults cs) = Parsed c \<longrightarrow>
        (Device_enumerate w (devArgs c) = [] \<longrightarrow>
           (\<exists>r'. main cs w args = Some r' \<and> result r' = Exit 1))
      \<and> (Device_enumerate w (devArgs c) \<noteq> [] \<and> \<not> Device_make w (devArgs c) \<longrightarrow>
           (\<exists>r'. main cs w args = Some r' \<and> result r' = Exit 1))
      \<and> (gets_configured w c f sps \<and> \<not> setupStream w (fmt c) \<longrightarrow>
           (\<exists>r'. main cs w args = Some r' \<and> result r' = Exit 1))
      \<and> (gets_configured w c f sps \<and> setupStream w (fmt c)
           \<and> \<not> fopen w (bin_path cs w c f sps) \<longrightarrow>
           (\<exists>r'. main cs w args = Some r' \<and> result r' = Exit 1)))
   \<and> (parse_cli (stoi w) (stod w) pre (defaults cs) = Parsed c' \<and> a \<in> set value_flags \<longrightarrow>
        main cs w (pre @ [a])
          = Some \<lparr> events = [Stderr (MissingValue a)], result = Exit 2, bin_file = None,
                   json_file = None \<rparr>)"
proof (intro conjI impI)
  assume "main cs w args = Some r \<and> DeactivateStream \<in> set (events r)"
  then show "result r = Exit 0" using teardown_means_exit_0 by blast
next
  assume "parse_cli (stoi w) (stod w) args (defaults cs) = Parsed c"
    "Device_enumerate w (devArgs c) = []"
  then show "\<exists>r'. main cs w args = Some r' \<and> result r' = Exit 1"
    by (simp add: main_def prepare_def)
next
  assume "parse_cli (stoi w) (stod w) args (defaults cs) = Parsed c"
    "Device_enumerate w (devArgs c) \<noteq> [] \<and> \<not> Device_make w (devArgs c)"
  then show "\<exists>r'. main cs w args = Some r' \<and> result r' = Exit 1"
    by (simp add: main_def prepare_def)
next
  assume "parse_cli (stoi w) (stod w) args (defaults cs) = Parsed c"
    "gets_configured w c f sps \<and> \<not> setupStream w (fmt c)"
  then show "\<exists>r'. main cs w args = Some r' \<and> result r' = Exit 1"
    using prepare_configured [of w c f sps cs] by (simp add: main_def Let_def)
next
  assume "parse_cli (stoi w) (stod w) args (defaults cs) = Parsed c"
    "gets_configured w c f sps \<and> setupStream w (fmt c) \<and> \<not> fopen w (bin_path cs w c f sps)"
  then show "\<exists>r'. main cs w args = Some r' \<and> result r' = Exit 1"
    using prepare_configured [of w c f sps cs] by (simp add: main_def bin_path_def Let_def)
next
  assume a: "parse_cli (stoi w) (stod w) pre (defaults cs) = Parsed c' \<and> a \<in> set value_flags"
  then have "parse_cli (stoi w) (stod w) (pre @ [a]) (defaults cs)
      = Stopped [Stderr (MissingValue a)] (Exit 2)"
    by (auto simp: parse_append_flag value_flags_def)
  then show "main cs w (pre @ [a])
          = Some \<lparr> events = [Stderr (MissingValue a)], result = Exit 2, bin_file = None,
                   json_file = None \<rparr>"
    by (simp add: main_def)
qed

theorem exit_codes_witness:
  "(\<exists>r. main soapy0 (world0\<lparr> ticks := [tick0\<lparr> g_stop := True \<rparr>] \<rparr>) [] = Some r
        \<and> DeactivateStream \<in> set (events r) \<and> result r = Exit 0)
   \<and> parse_cli (stoi world0) (stod world0) [] (defaults soapy0) = Parsed (defaults soapy0)
   \<and> map_option result (main soapy0 (world0\<lparr> Device_enumerate := (\<lambda>a. []) \<rparr>) [])
       = Some (Exit 1)
   \<and> map_option result (main soapy0 (world0\<lparr> Device_make := (\<lambda>a. False) \<rparr>) [])
       = Some (Exit 1)
   \<and> gets_configured world0 (defaults soapy0) 2437000000 20000000
   \<and> map_option result (main soapy0 (world0\<lparr> setupStream := (\<lambda>a. False) \<rparr>) [])
       = Some (Exit 1)
   \<and> map_option result (main soapy0 (world0\<lparr> fopen := (\<lambda>a. False) \<rparr>) [])
       = Some (Exit 1)
   \<and> ''--rate'' \<in> set value_flags
   \<and> parse_cli (stoi world0) (stod world0) [''--chan'', ''6''] (defaults soapy0)
       = Parsed ((defaults soapy0)\<lparr> wifiCh := 6 \<rparr>)
   \<and> main soapy0 world0 [''--chan'', ''6'', ''--rate'']
       = Some \<lparr> events = [Stderr (MissingValue ''--rate'')], result = Exit 2,
                bin_file = None, json_file = None \<rparr>"
proof -
  let ?c = "defaults soapy0"
  let ?wc = "world0\<lparr> ticks := [tick0\<lparr> g_stop := True \<rparr>] \<rparr>"
  let ?w1 = "world0\<lparr> Device_enumerate := (\<lambda>a. []) \<rparr>"
  let ?w2 = "world0\<lparr> Device_make := (\<lambda>a. False) \<rparr>"
  let ?w3 = "world0\<lparr> setupStream := (\<lambda>a. False) \<rparr>"
  let ?w4 = "world0\<lparr> fopen := (\<lambda>a. False) \<rparr>"
  have p: "parse_cli (stoi w) (stod w) [] ?c = Parsed ?c" for w :: world
    by simp
  have g: "gets_configured world0 ?c 2437000000 20000000"
    by (simp add: gets_configured_def world0_defs wifi2g_ch_to_hz_def u64_of_double_def)
  then have g3: "gets_configured ?w3 ?c 2437000000 20000000"
    and g4: "gets_configured ?w4 ?c 2437000000 20000000"
    by (simp_all add: gets_configured_def)
  have "\<exists>r. main soapy0 ?wc [] = Some r \<and> DeactivateStream \<in> set (events r)"
    by (simp add: run_defs world0_defs)
  then obtain r where r: "main soapy0 ?wc [] = Some r" "DeactivateStream \<in> set (events r)"
    by blast
  with exit_codes [of soapy0 ?wc "[]" r] have "result r = Exit 0" by blast
  with r have a: "\<exists>r. main soapy0 ?wc [] = Some r
        \<and> DeactivateStream \<in> set (events r) \<and> result r = Exit 0"
    by blast
  have "Device_enumerate ?w1 (devArgs ?c) = []" by simp
  with exit_codes [of soapy0 ?w1 "[]" _ ?c] p [of ?w1]
  have b: "map_option result (main soapy0 ?w1 []) = Some (Exit 1)" by auto
  have "Device_enumerate ?w2 (devArgs ?c) \<noteq> [] \<and> \<not> Device_make ?w2 (devArgs ?c)"
    by (simp add: world0_def)
  with exit_codes [of soapy0 ?w2 "[]" _ ?c] p [of ?w2]
  have c: "map_option result (main soapy0 ?w2 []) = Some (Exit 1)" by auto
  have "\<not> setupStream ?w3 (fmt ?c)" by simp
  with exit_codes [of soapy0 ?w3 "[]" _ ?c 2437000000 20000000] p [of ?w3] g3
  have d: "map_option result (main soapy0 ?w3 []) = Some (Exit 1)" by auto
  have "setupStream ?w4 (fmt ?c) \<and> \<not> fopen ?w4 (bin_path soapy0 ?w4 ?c 2437000000 20000000)"
    by (simp add: world0_def)
  with exit_codes [of soapy0 ?w4 "[]" _ ?c 2437000000 20000000] p [of ?w4] g4
  have e: "map_option result (main soapy0 ?w4 []) = Some (Exit 1)" by auto
  have v: "''--rate'' \<in> set value_flags" by (simp add: value_flags_def)
  have q: "parse_cli (stoi world0) (stod world0) [''--chan'', ''6''] ?c
       = Parsed (?c\<lparr> wifiCh := 6 \<rparr>)"
    by (simp add: world0_def)
  with exit_codes [of soapy0 world0 _ _ _ _ _ "[''--chan'', ''6'']" "?c\<lparr> wifiCh := 6 \<rparr>"
      "''--rate''"] v
  have f: "main soapy0 world0 [''--chan'', ''6'', ''--rate'']
       = Some \<lparr> events = [Stderr (MissingValue ''--rate'')], result = Exit 2,
                bin_file = None, json_file = None \<rparr>"
    by simp
  from a p [of world0] b c g d e v q f show ?thesis by blast
qed

subsection \<open>C8: best-effort corrections\<close>

text \<open>
  C8. Whether the DC-offset, IQ-balance and gain calls throw or not makes no difference
  to the run: \<^verbatim>\<open>main\<close> does the same and ends the same in a world where they behave
  in any other way. When the three mandatory setters return, the configuration returns,
  whatever the best-effort calls do.
\<close>

theorem best_effort_corrections:
  "main cs (w\<lparr> setter_throws := (setter_throws w)(DCOffsetMode := a, IQBalance := b, Gain := g) \<rparr>) args
     = main cs w args
   \<and> (\<not> setter_throws w SampleRate \<and> \<not> setter_throws w Bandwidth \<and> \<not> setter_throws w Frequency
        \<longrightarrow> snd (configure_rx w c f) = Inr ())"
  by (auto simp: main_def prepare_best_effort capture_def settle_setter_throws configure_rx_cases
      split: parsed.splits sum.splits prod.splits)

theorem best_effort_corrections_witness:
  "main soapy0
     (world0\<lparr> setter_throws := (setter_throws world0)
         (DCOffsetMode := True, IQBalance := True, Gain := True) \<rparr>) []
     = main soapy0 world0 []
   \<and> \<not> setter_throws world0 SampleRate \<and> \<not> setter_throws world0 Bandwidth
   \<and> \<not> setter_throws world0 Frequency
   \<and> snd (configure_rx
        (world0\<lparr> setter_throws := (\<lambda>x. x = DCOffsetMode \<or> x = IQBalance \<or> x = Gain) \<rparr>)
        (defaults soapy0) 2437000000) = Inr ()"
proof -
  let ?w = "world0\<lparr> setter_throws := (\<lambda>x. x = DCOffsetMode \<or> x = IQBalance \<or> x = Gain) \<rparr>"
  have h: "\<not> setter_throws ?w SampleRate \<and> \<not> setter_throws ?w Bandwidth
      \<and> \<not> setter_throws ?w Frequency"
    by simp
  have h0: "\<not> setter_throws world0 SampleRate \<and> \<not> setter_throws world0 Bandwidth
      \<and> \<not> setter_throws world0 Frequency"
    by (simp add: world0_def)
  from best_effort_corrections [of soapy0 world0 True True True "[]"]
  have a: "main soapy0
     (world0\<lparr> setter_throws := (setter_throws world0)
         (DCOffsetMode := True, IQBalance := True, Gain := True) \<rparr>) []
     = main soapy0 world0 []"
    by blast
  from best_effort_corrections [of soapy0 ?w _ _ _ _ "defaults soapy0" 2437000000] h
  have "snd (configure_rx ?w (defaults soapy0) 2437000000) = Inr ()"
    by blast
  with a h0 show ?thesis by blast
qed

subsection \<open>C9: the sidecar writer\<close>

text \<open>
  C9 as the specification has it says that a sidecar that does not open is reported. In
  this run it does not open: no sidecar appears, and the program prints exactly what it
  prints when the sidecar opens, the line that names the sidecar included.
\<close>

theorem sidecar_failure_counterexample:
  "main soapy0 world_no_sidecar [''--secs'', ''1'']
     = Some \<lparr> events = setup0 @
                [DeactivateStream, CloseStream, Unmake, Fclose, Ofstream (jsonPath session0),
                 Stderr (Done 0 (binPath session0)), Stderr (SidecarAt (jsonPath session0))],
              result = Exit 0, bin_file = Some (binPath session0, []), json_file = None \<rparr>
   \<and> map_option events (main soapy0 world_cancelled [''--secs'', ''1''])
       = map_option events (main soapy0 world_no_sidecar [''--secs'', ''1''])"
  by (simp add: run_defs example_defs)

text \<open>
  C9, as the code has it. In a run that reaches the teardown the sidecar is opened once,
  right after \<^verbatim>\<open>fclose\<close>, and when it opens it carries the count that the program
  prints; a run that ends before the teardown never opens it. Whether the sidecar opens
  or not changes nothing that the program prints, nor the exit code, nor the binary
  file: \<^verbatim>\<open>write_sidecar_json\<close> never tests its stream, so a failure is not reported.
\<close>

theorem sidecar_once_and_unreported:
  "(main cs w args = Some r \<and> DeactivateStream \<in> set (events r) \<longrightarrow>
      (\<exists>before p n q.
          events r = before @ [DeactivateStream, CloseStream, Unmake, Fclose, Ofstream p,
                               Stderr (Done n q), Stderr (SidecarAt p)]
          \<and> list_all (\<lambda>e. \<not> closes e) before
          \<and> (json_file r = None \<or> (\<exists>sc. json_file r = Some (p, sc) \<and> samples sc = n))))
   \<and> (main cs w args = Some r \<and> DeactivateStream \<notin> set (events r) \<longrightarrow>
        list_all (\<lambda>e. \<not> closes e) (events r) \<and> json_file r = None)
   \<and> map_option (\<lambda>r. (events r, result r, bin_file r)) (main cs (w\<lparr> ofstream := opn \<rparr>) args)
      = map_option (\<lambda>r. (events r, result r, bin_file r)) (main cs w args)"
proof (intro conjI impI)
  assume a: "main cs w args = Some r \<and> DeactivateStream \<in> set (events r)"
  then have m: "main cs w args = Some r" and d: "DeactivateStream \<in> set (events r)"
    by blast+
  from m show "\<exists>before p n q.
          events r = before @ [DeactivateStream, CloseStream, Unmake, Fclose, Ofstream p,
                               Stderr (Done n q), Stderr (SidecarAt p)]
          \<and> list_all (\<lambda>e. \<not> closes e) before
          \<and> (json_file r = None \<or> (\<exists>sc. json_file r = Some (p, sc) \<and> samples sc = n))"
  proof (cases rule: main_cases)
    case early
    with d show ?thesis by (auto simp: list_all_iff closes_simps)
  next
    case (torn c es s st why)
    then show ?thesis
      by (intro exI [of _ "trace st"] exI [of _ "jsonPath s"] exI [of _ "totalSamps st"]
          exI [of _ "binPath s"])
         (simp add: finish_def write_sidecar_json_def)
  qed
next
  assume a: "main cs w args = Some r \<and> DeactivateStream \<notin> set (events r)"
  then have m: "main cs w args = Some r" and d: "DeactivateStream \<notin> set (events r)"
    by blast+
  from m show "list_all (\<lambda>e. \<not> closes e) (events r)"
  proof (cases rule: main_cases)
    case early
    then show ?thesis by simp
  next
    case (torn c es s st why)
    with d show ?thesis by (simp add: finish_def)
  qed
  from m show "json_file r = None"
  proof (cases rule: main_cases)
    case early
    then show ?thesis by simp
  next
    case (torn c es s st why)
    with d show ?thesis by (simp add: finish_def)
  qed
next
  show "map_option (\<lambda>r. (events r, result r, bin_file r)) (main cs (w\<lparr> ofstream := opn \<rparr>) args)
      = map_option (\<lambda>r. (events r, result r, bin_file r)) (main cs w args)"
    by (rule main_ofstream)
qed

theorem sidecar_once_and_unreported_witness:
  "(\<exists>r. main soapy0 world_cancelled [''--secs'', ''1''] = Some r
        \<and> DeactivateStream \<in> set (events r)
        \<and> (\<exists>before p n q.
              events r = before @ [DeactivateStream, CloseStream, Unmake, Fclose, Ofstream p,
                                   Stderr (Done n q), Stderr (SidecarAt p)]
              \<and> list_all (\<lambda>e. \<not> closes e) before
              \<and> (json_file r = None \<or> (\<exists>sc. json_file r = Some (p, sc) \<and> samples sc = n))))
   \<and> (\<exists>r. main soapy0 world_no_output [] = Some r \<and> DeactivateStream \<notin> set (events r)
        \<and> list_all (\<lambda>e. \<not> closes e) (events r) \<and> json_file r = None)
   \<and> map_option (\<lambda>r. (events r, result r, bin_file r))
        (main soapy0 (world_cancelled\<lparr> ofstream := (\<lambda>p. False) \<rparr>) [''--secs'', ''1''])
      = map_option (\<lambda>r. (events r, result r, bin_file r))
          (main soapy0 world_cancelled [''--secs'', ''1''])"
proof -
  have "\<exists>r. main soapy0 world_cancelled [''--secs'', ''1''] = Some r
      \<and> DeactivateStream \<in> set (events r)"
    by (simp add: run_defs example_defs)
  then obtain r where r: "main soapy0 world_cancelled [''--secs'', ''1''] = Some r"
    "DeactivateStream \<in> set (events r)"
    by blast
  then have hr: "main soapy0 world_cancelled [''--secs'', ''1''] = Some r
      \<and> DeactivateStream \<in> set (events r)"
    by blast
  note a = sidecar_once_and_unreported [of soapy0 world_cancelled "[''--secs'', ''1'']" r,
      THEN conjunct1, THEN mp, OF hr]
  have "\<exists>r. main soapy0 world_no_output [] = Some r \<and> DeactivateStream \<notin> set (events r)"
    by (simp add: run_defs example_defs)
  then obtain r' where r': "main soapy0 world_no_output [] = Some r'"
    "DeactivateStream \<notin> set (events r')"
    by blast
  then have hr': "main soapy0 world_no_output [] = Some r' \<and> DeactivateStream \<notin> set (events r')"
    by blast
  note b = sidecar_once_and_unreported [of soapy0 world_no_output "[]" r',
      THEN conjunct2, THEN conjunct1, THEN mp, OF hr']
  note c = sidecar_once_and_unreported [of soapy0 world_cancelled "[''--secs'', ''1'']" _
      "\<lambda>p. False", THEN conjunct2, THEN conjunct2]
  from r a r' b c show ?thesis by blast
qed

subsection \<open>C10: the sample format is not validated\<close>

text \<open>
  C10. \<^verbatim>\<open>--fmt\<close> stores whatever string follows it. With any format other than the name
  of complex-float32, a setup that gets as far as the stream, a driver that accepts the
  string and an output file that opens, the program goes on to capture: the string is
  passed to \<^verbatim>\<open>setupStream\<close> as it is, an element is 4 bytes, the buffer is the transfer
  unit times 4, and the output file ends in \<^verbatim>\<open>.cs16\<close>.
\<close>

theorem format_not_validated:
  "parse_cli si sd (''--fmt'' # v # rest) c0 = parse_cli si sd rest (c0\<lparr> fmt := v \<rparr>)
   \<and> (fmt c \<noteq> SOAPY_SDR_CF32 cs \<and> gets_configured w c f sps \<and> setupStream w (fmt c)
        \<and> fopen w (bin_path cs w c f sps) \<longrightarrow>
        (\<exists>es s. prepare cs w c = Inr (es, s)
           \<and> SetupStream (fmt c) \<in> set es
           \<and> elemSize s = 4
           \<and> buffer (start s es) = replicate (unat (getStreamMTU w * 4)) 0
           \<and> binPath s = base_name c (nat \<lfloor>f\<rfloor>) sps (now_utc_compact w) @ ''.cs16''
           \<and> (parse_cli (stoi w) (stod w) args (defaults cs) = Parsed c \<longrightarrow>
                main cs w args = capture cs w s es (ticks w))))"
proof (intro conjI impI)
  show "parse_cli si sd (''--fmt'' # v # rest) c0 = parse_cli si sd rest (c0\<lparr> fmt := v \<rparr>)"
    by simp
next
  assume a: "fmt c \<noteq> SOAPY_SDR_CF32 cs \<and> gets_configured w c f sps \<and> setupStream w (fmt c)
        \<and> fopen w (bin_path cs w c f sps)"
  then have g: "gets_configured w c f sps"
    and n: "fmt c \<noteq> SOAPY_SDR_CF32 cs" "setupStream w (fmt c)"
    and o: "fopen w (bin_path cs w c f sps)"
    by blast+
  from o n have o': "fopen w (base_name c (nat \<lfloor>f\<rfloor>) sps (now_utc_compact w) @ ''.cs16'')"
    by (simp add: bin_path_def bin_ext_def)
  from n o' show "\<exists>es s. prepare cs w c = Inr (es, s)
           \<and> SetupStream (fmt c) \<in> set es
           \<and> elemSize s = 4
           \<and> buffer (start s es) = replicate (unat (getStreamMTU w * 4)) 0
           \<and> binPath s = base_name c (nat \<lfloor>f\<rfloor>) sps (now_utc_compact w) @ ''.cs16''
           \<and> (parse_cli (stoi w) (stod w) args (defaults cs) = Parsed c \<longrightarrow>
                main cs w args = capture cs w s es (ticks w))"
    by (simp add: prepare_configured [OF g] bin_path_def Let_def elem_size_def bin_ext_def
        start_def main_def)
qed

theorem format_not_validated_witness:
  "parse_cli (stoi world0) (stod world0) [''--fmt'', ''XYZ''] (defaults soapy0)
     = Parsed ((defaults soapy0)\<lparr> fmt := ''XYZ'' \<rparr>)
   \<and> fmt ((defaults soapy0)\<lparr> fmt := ''XYZ'' \<rparr>) \<noteq> SOAPY_SDR_CF32 soapy0
   \<and> gets_configured world0 ((defaults soapy0)\<lparr> fmt := ''XYZ'' \<rparr>) 2437000000 20000000
   \<and> setupStream world0 ''XYZ''
   \<and> fopen world0 (bin_path soapy0 world0 ((defaults soapy0)\<lparr> fmt := ''XYZ'' \<rparr>)
        2437000000 20000000)
   \<and> (\<exists>es s. prepare soapy0 world0 ((defaults soapy0)\<lparr> fmt := ''XYZ'' \<rparr>) = Inr (es, s)
         \<and> SetupStream ''XYZ'' \<in> set es \<and> elemSize s = 4
         \<and> buffer (start s es) = replicate 8 0
         \<and> binPath s
            = ''./captures/wifi2g_ch6_2437000000Hz_20000000sps_20240101T000000Z.cs16''
         \<and> main soapy0 world0 [''--fmt'', ''XYZ''] = capture soapy0 world0 s es (ticks world0))"
proof -
  let ?c = "(defaults soapy0)\<lparr> fmt := ''XYZ'' \<rparr>"
  have p: "parse_cli (stoi world0) (stod world0) [''--fmt'', ''XYZ''] (defaults soapy0)
     = Parsed ?c"
    using format_not_validated [of "stoi world0" "stod world0" "''XYZ''" "[]" "defaults soapy0"]
    by simp
  have h: "fmt ?c \<noteq> SOAPY_SDR_CF32 soapy0"
    "gets_configured world0 ?c 2437000000 20000000"
    "setupStream world0 ''XYZ''"
    "fopen world0 (bin_path soapy0 world0 ?c 2437000000 20000000)"
    by (simp_all add: gets_configured_def world0_defs wifi2g_ch_to_hz_def u64_of_double_def)
  have b: "base_name ?c 2437000000 20000000 (now_utc_compact world0) @ ''.cs16''
      = ''./captures/wifi2g_ch6_2437000000Hz_20000000sps_20240101T000000Z.cs16''"
    by (simp add: base_name_def world0_defs show_int_def digit_def)
  have m: "unat (getStreamMTU world0 * 4) = 8" by (simp add: world0_def)
  from format_not_validated [of _ _ _ _ _ ?c soapy0 world0 2437000000 20000000
      "[''--fmt'', ''XYZ'']"] h p
  have "\<exists>es s. prepare soapy0 world0 ?c = Inr (es, s)
         \<and> SetupStream ''XYZ'' \<in> set es \<and> elemSize s = 4
         \<and> buffer (start s es) = replicate 8 0
         \<and> binPath s
            = ''./captures/wifi2g_ch6_2437000000Hz_20000000sps_20240101T000000Z.cs16''
         \<and> main soapy0 world0 [''--fmt'', ''XYZ''] = capture soapy0 world0 s es (ticks world0)"
    by (simp add: b m)
  with p h show ?thesis by simp
qed

end
